theory Spec2Isabelle
  imports Main
begin

section \<open>The git command layer of ply (src/ply/git/cmd.py)\<close>

text \<open>
  The module wraps eight git subcommands. Each operation builds an argument vector
  (a Python list of strings), spawns the external program with it and classifies the
  outcome; \<open>Repo\<close> runs each operation inside a stored directory.

  Python strings are \<open>string\<close>, \<open>None\<close>-able arguments are \<open>option\<close> values, the
  keyword dictionary of \<open>am\<close> is a map, exceptions are the \<open>Inl\<close> side of a sum.
  The process-wide state the module touches is explicit: the current working directory,
  the state the external program works on, and the list of processes spawned so far.
\<close>

subsection \<open>Process state, the external program, exceptions\<close>

record 'fs world =
  cwd :: string
  fs :: 'fs
  spawned :: "(string \<times> string list) list"

record proc_result =
  returncode :: int
  stdout :: string

text \<open>
  The external program is a parameter: from the state it works on, the directory it is
  started in and its argument vector it yields an exit status, its standard output and
  the new state. A child process cannot change the working directory of its parent.
\<close>

type_synonym 'fs tool = "'fs \<Rightarrow> string \<Rightarrow> string list \<Rightarrow> proc_result \<times> 'fs"

datatype error =
    CalledProcessError int "string list"
  | PatchDidNotApplyCleanly
  | MutuallyIncompatibleOptions string
  | GitException int string "string option"
  | OSError string

text \<open>Starting a child process and waiting for it: the spawn is recorded with the
  directory it ran in.\<close>

definition spawn :: "'fs tool \<Rightarrow> string list \<Rightarrow> 'fs world \<Rightarrow> proc_result \<times> 'fs world" where
  "spawn git args w =
     (let (r, fs') = git (fs w) (cwd w) args
      in (r, w\<lparr>fs := fs', spawned := spawned w @ [(cwd w, args)]\<rparr>))"

text \<open>\<^verbatim>\<open>subprocess.check_call(args)\<close>: raises \<open>CalledProcessError\<close> on a non-zero exit.\<close>

definition check_call :: "'fs tool \<Rightarrow> string list \<Rightarrow> 'fs world \<Rightarrow> (error + unit) \<times> 'fs world" where
  "check_call git args w =
     (let (r, w') = spawn git args w
      in if returncode r \<noteq> 0 then (Inl (CalledProcessError (returncode r) args), w')
         else (Inr (), w'))"

text \<open>\<^verbatim>\<open>proc = subprocess.Popen(args, stdout=subprocess.PIPE); proc.communicate()\<close>:
  the exit status, the captured standard output, and \<open>None\<close> for the standard error,
  which is not piped.\<close>

definition Popen_communicate ::
  "'fs tool \<Rightarrow> string list \<Rightarrow> 'fs world \<Rightarrow> (int \<times> string \<times> string option) \<times> 'fs world" where
  "Popen_communicate git args w =
     (let (r, w') = spawn git args w
      in ((returncode r, stdout r, None), w'))"

subsection \<open>add\<close>

text \<open>
  \<^verbatim>\<open>
  def add(filename):
      subprocess.check_call(['git', 'add', filename])
  \<close>
\<close>

definition add_args :: "string \<Rightarrow> string list" where
  "add_args filename = [''git'', ''add'', filename]"

definition add :: "'fs tool \<Rightarrow> string \<Rightarrow> 'fs world \<Rightarrow> (error + unit) \<times> 'fs world" where
  "add git filename w = check_call git (add_args filename) w"

subsection \<open>am\<close>

text \<open>
  \<^verbatim>\<open>
  def am(*patch_paths, **kwargs):
      three_way_merge = kwargs.get('three_way_merge', False)
      resolved = kwargs.get('resolved', False)
      quiet = kwargs.get('quiet', False)
      args = ['git', 'am']
      args.extend(patch_paths)
      if three_way_merge:
          args.append('--3way')
      if resolved:
          args.append('--resolved')
      if quiet:
          args.append('-q')
      try:
          subprocess.check_call(args)
      except subprocess.CalledProcessError:
          raise exc.PatchDidNotApplyCleanly
  \<close>
  The keyword dictionary is a map from option names to booleans; \<open>kwargs_get\<close> is
  \<^verbatim>\<open>dict.get\<close> with a default.
\<close>

definition kwargs_get :: "(string \<rightharpoonup> 'a) \<Rightarrow> string \<Rightarrow> 'a \<Rightarrow> 'a" where
  "kwargs_get kwargs k d = (case kwargs k of None \<Rightarrow> d | Some v \<Rightarrow> v)"

definition am_args :: "string list \<Rightarrow> (string \<rightharpoonup> bool) \<Rightarrow> string list" where
  "am_args patch_paths kwargs =
     (let three_way_merge = kwargs_get kwargs ''three_way_merge'' False;
          resolved = kwargs_get kwargs ''resolved'' False;
          quiet = kwargs_get kwargs ''quiet'' False;
          args = [''git'', ''am''];
          args = args @ patch_paths;
          args = (if three_way_merge then args @ [''--3way''] else args);
          args = (if resolved then args @ [''--resolved''] else args);
          args = (if quiet then args @ [''-q''] else args)
      in args)"

definition am ::
  "'fs tool \<Rightarrow> string list \<Rightarrow> (string \<rightharpoonup> bool) \<Rightarrow> 'fs world \<Rightarrow> (error + unit) \<times> 'fs world" where
  "am git patch_paths kwargs w =
     (case check_call git (am_args patch_paths kwargs) w of
        (Inl (CalledProcessError rc cmd), w') \<Rightarrow> (Inl PatchDidNotApplyCleanly, w')
      | (Inl e, w') \<Rightarrow> (Inl e, w')
      | (Inr u, w') \<Rightarrow> (Inr u, w'))"

subsection \<open>checkout\<close>

text \<open>
  \<^verbatim>\<open>
  def checkout(branch_name, create=False, create_and_reset=False):
      args = ['git', 'checkout']
      if create and create_and_reset:
          raise exc.MutuallyIncompatibleOptions("create and create_and_reset")
      if create:
          args.append('-b')
      if create_and_reset:
          args.append('-B')
      args.append(branch_name)
      subprocess.check_call(args)
  \<close>
\<close>

definition checkout_args :: "string \<Rightarrow> bool \<Rightarrow> bool \<Rightarrow> error + string list" where
  "checkout_args branch_name create create_and_reset =
     (let args = [''git'', ''checkout'']
      in if create \<and> create_and_reset
         then Inl (MutuallyIncompatibleOptions ''create and create_and_reset'')
         else
           let args = (if create then args @ [''-b''] else args);
               args = (if create_and_reset then args @ [''-B''] else args);
               args = args @ [branch_name]
           in Inr args)"

definition checkout ::
  "'fs tool \<Rightarrow> string \<Rightarrow> bool \<Rightarrow> bool \<Rightarrow> 'fs world \<Rightarrow> (error + unit) \<times> 'fs world" where
  "checkout git branch_name create create_and_reset w =
     (case checkout_args branch_name create create_and_reset of
        Inl e \<Rightarrow> (Inl e, w)
      | Inr args \<Rightarrow> check_call git args w)"

subsection \<open>commit\<close>

text \<open>
  \<^verbatim>\<open>
  def commit(msg, all=False, amend=False, use_commit_object=None, quiet=False):
      args = ['git', 'commit']
      if msg is not None:
          args.extend(['-m', '%s' % msg])
      if all:
          args.append('-a')
      if amend:
          args.append('--amend')
      if use_commit_object:
          args.extend(['-C', use_commit_object])
      if quiet:
          args.append('-q')
      subprocess.check_call(args)
  \<close>
  \<open>msg\<close> is tested against \<open>None\<close>; \<open>use_commit_object\<close> is tested by truthiness, so
  both \<open>None\<close> and the empty string count as absent. \<^verbatim>\<open>'%s' % msg\<close> of a string is the
  string.
\<close>

definition commit_args ::
  "string option \<Rightarrow> bool \<Rightarrow> bool \<Rightarrow> string option \<Rightarrow> bool \<Rightarrow> string list" where
  "commit_args msg all amend use_commit_object quiet =
     (let args = [''git'', ''commit''];
          args = (case msg of None \<Rightarrow> args | Some m \<Rightarrow> args @ [''-m'', m]);
          args = (if all then args @ [''-a''] else args);
          args = (if amend then args @ [''--amend''] else args);
          args = (case use_commit_object of
                    None \<Rightarrow> args
                  | Some c \<Rightarrow> if c = [] then args else args @ [''-C'', c]);
          args = (if quiet then args @ [''-q''] else args)
      in args)"

definition commit ::
  "'fs tool \<Rightarrow> string option \<Rightarrow> bool \<Rightarrow> bool \<Rightarrow> string option \<Rightarrow> bool \<Rightarrow> 'fs world
     \<Rightarrow> (error + unit) \<times> 'fs world" where
  "commit git msg all amend use_commit_object quiet w =
     check_call git (commit_args msg all amend use_commit_object quiet) w"

subsection \<open>format\_patch\<close>

text \<open>
  \<^verbatim>\<open>
  def format_patch(since):
      """Returns a list of patch files"""
      args = ['git', 'format-patch', since]
      proc = subprocess.Popen(args, stdout=subprocess.PIPE)
      stdout, stderr = proc.communicate()
      if proc.returncode != 0:
          raise exc.GitException((proc.returncode, stdout, stderr))
      filenames = [line.strip() for line in stdout.split('\n') if line]
      return filenames
  \<close>
  \<open>str_split\<close> is \<^verbatim>\<open>str.split\<close> with a one-character separator: every occurrence
  of the separator ends a piece, so the empty string gives one empty piece.
  \<open>strip\<close> is \<^verbatim>\<open>str.strip()\<close>: it removes leading and trailing whitespace
  (space, tab, line feed, vertical tab, form feed, carriage return).
\<close>

definition NL :: char where
  "NL = CHR 0x0A"

fun str_split :: "char \<Rightarrow> string \<Rightarrow> string list" where
  "str_split sep [] = ['''']"
| "str_split sep (c # cs) =
     (if c = sep then [] # str_split sep cs
      else (case str_split sep cs of [] \<Rightarrow> [[c]] | l # ls \<Rightarrow> (c # l) # ls))"

definition isspace :: "char \<Rightarrow> bool" where
  "isspace c \<longleftrightarrow>
     c = CHR 0x20 \<or> c = CHR 0x09 \<or> c = CHR 0x0A \<or> c = CHR 0x0B \<or> c = CHR 0x0C \<or> c = CHR 0x0D"

definition strip :: "string \<Rightarrow> string" where
  "strip s = rev (dropWhile isspace (rev (dropWhile isspace s)))"

definition format_patch_args :: "string \<Rightarrow> string list" where
  "format_patch_args since = [''git'', ''format-patch'', since]"

definition format_patch ::
  "'fs tool \<Rightarrow> string \<Rightarrow> 'fs world \<Rightarrow> (error + string list) \<times> 'fs world" where
  "format_patch git since w =
     (let args = format_patch_args since;
          ((rc, out, err), w') = Popen_communicate git args w
      in if rc \<noteq> 0 then (Inl (GitException rc out err), w')
         else
           let filenames = map strip (filter (\<lambda>line. line \<noteq> []) (str_split NL out))
           in (Inr filenames, w'))"

subsection \<open>init\<close>

text \<open>
  \<^verbatim>\<open>
  def init(directory, quiet=False):
      args = ['git', 'init']
      if quiet:
          args.append('-q')
      args.append(directory)
      subprocess.check_call(args)
  \<close>
\<close>

definition init_args :: "string \<Rightarrow> bool \<Rightarrow> string list" where
  "init_args directory quiet =
     (let args = [''git'', ''init''];
          args = (if quiet then args @ [''-q''] else args);
          args = args @ [directory]
      in args)"

definition init :: "'fs tool \<Rightarrow> string \<Rightarrow> bool \<Rightarrow> 'fs world \<Rightarrow> (error + unit) \<times> 'fs world" where
  "init git directory quiet w = check_call git (init_args directory quiet) w"

subsection \<open>log\<close>

text \<open>
  \<^verbatim>\<open>
  def log(cmd_arg=None, count=None, pretty=None, skip=None):
      args = ['git', 'log']
      if pretty:
          args.append("--pretty=%s" % pretty)
      if count is not None:
          args.append("-%d" % count)
      if skip is not None:
          args.append("--skip=%d" % skip)
      if cmd_arg:
          args.append(cmd_arg)
      proc = subprocess.Popen(args, stdout=subprocess.PIPE)
      stdout, stderr = proc.communicate()
      if proc.returncode != 0:
          raise exc.GitException((proc.returncode, stdout, stderr))
      return stdout
  \<close>
  \<open>fmt_d\<close> is \<^verbatim>\<open>"%d" % n\<close> for an integer: the decimal digits, with a minus sign
  for a negative number.
\<close>

definition digit_char :: "nat \<Rightarrow> char" where
  "digit_char d = ''0123456789'' ! d"

function digits :: "nat \<Rightarrow> string" where
  "digits n = (if n < 10 then [digit_char n] else digits (n div 10) @ [digit_char (n mod 10)])"
  by pat_completeness auto
termination
  by (relation "measure id") auto

declare digits.simps [simp del]

definition fmt_d :: "int \<Rightarrow> string" where
  "fmt_d i = (if i < 0 then ''-'' @ digits (nat (- i)) else digits (nat i))"

definition log_args ::
  "string option \<Rightarrow> int option \<Rightarrow> string option \<Rightarrow> int option \<Rightarrow> string list" where
  "log_args cmd_arg count pretty skip =
     (let args = [''git'', ''log''];
          args = (case pretty of
                    None \<Rightarrow> args
                  | Some p \<Rightarrow> if p = [] then args else args @ [''--pretty='' @ p]);
          args = (case count of None \<Rightarrow> args | Some n \<Rightarrow> args @ [''-'' @ fmt_d n]);
          args = (case skip of None \<Rightarrow> args | Some n \<Rightarrow> args @ [''--skip='' @ fmt_d n]);
          args = (case cmd_arg of
                    None \<Rightarrow> args
                  | Some a \<Rightarrow> if a = [] then args else args @ [a])
      in args)"

definition log ::
  "'fs tool \<Rightarrow> string option \<Rightarrow> int option \<Rightarrow> string option \<Rightarrow> int option \<Rightarrow> 'fs world
     \<Rightarrow> (error + string) \<times> 'fs world" where
  "log git cmd_arg count pretty skip w =
     (let args = log_args cmd_arg count pretty skip;
          ((rc, out, err), w') = Popen_communicate git args w
      in if rc \<noteq> 0 then (Inl (GitException rc out err), w')
         else (Inr out, w'))"

subsection \<open>reset\<close>

text \<open>
  \<^verbatim>\<open>
  def reset(commit, hard=False, quiet=False):
      args = ['git', 'reset', commit]
      if hard:
          args.append('--hard')
      if quiet:
          args.append('-q')
      subprocess.check_call(args)
  \<close>
\<close>

text \<open>The parameter \<open>commit\<close> is written \<open>commit'\<close> here, \<open>commit\<close> being the operation.\<close>

definition reset_args :: "string \<Rightarrow> bool \<Rightarrow> bool \<Rightarrow> string list" where
  "reset_args commit' hard quiet =
     (let args = [''git'', ''reset'', commit'];
          args = (if hard then args @ [''--hard''] else args);
          args = (if quiet then args @ [''-q''] else args)
      in args)"

definition reset :: "'fs tool \<Rightarrow> string \<Rightarrow> bool \<Rightarrow> bool \<Rightarrow> 'fs world \<Rightarrow> (error + unit) \<times> 'fs world" where
  "reset git commit' hard quiet w = check_call git (reset_args commit' hard quiet) w"

subsection \<open>The working directory and path names\<close>

text \<open>
  \<^verbatim>\<open>os.getcwd\<close> and \<^verbatim>\<open>os.chdir\<close> can fail. The parameter \<open>isdir\<close> says which paths name
  a directory that exists and can be entered in a state of the file system.
  \<^verbatim>\<open>os.getcwd()\<close> raises \<open>OSError\<close> when the working directory no longer exists;
  \<^verbatim>\<open>os.chdir(p)\<close> raises \<open>OSError\<close> when \<open>p\<close> cannot be entered, and then leaves the
  working directory as it was.
\<close>

definition os_getcwd :: "('fs \<Rightarrow> string \<Rightarrow> bool) \<Rightarrow> 'fs world \<Rightarrow> error + string" where
  "os_getcwd isdir w = (if isdir (fs w) (cwd w) then Inr (cwd w) else Inl (OSError (cwd w)))"

definition os_chdir ::
  "('fs \<Rightarrow> string \<Rightarrow> bool) \<Rightarrow> string \<Rightarrow> 'fs world \<Rightarrow> (error + unit) \<times> 'fs world" where
  "os_chdir isdir p w =
     (if isdir (fs w) p then (Inr (), w\<lparr>cwd := p\<rparr>) else (Inl (OSError p), w))"

text \<open>
  \<^verbatim>\<open>os.path.abspath\<close> on a POSIX system, from the module \<^verbatim>\<open>posixpath\<close> of Python 2.7,
  for byte strings:
  \<^verbatim>\<open>
  def isabs(s):
      return s.startswith('/')

  def join(a, *p):
      path = a
      for b in p:
          if b.startswith('/'):
              path = b
          elif path == '' or path.endswith('/'):
              path +=  b
          else:
              path += '/' + b
      return path

  def normpath(path):
      if path == '':
          return '.'
      initial_slashes = path.startswith('/')
      if (initial_slashes and
          path.startswith('//') and not path.startswith('///')):
          initial_slashes = 2
      comps = path.split('/')
      new_comps = []
      for comp in comps:
          if comp in ('', '.'):
              continue
          if (comp != '..' or (not initial_slashes and not new_comps) or
               (new_comps and new_comps[-1] == '..')):
              new_comps.append(comp)
          elif new_comps:
              new_comps.pop()
      comps = new_comps
      path = '/'.join(comps)
      if initial_slashes:
          path = '/'*initial_slashes + path
      return path or '.'

  def abspath(path):
      if not isabs(path):
          cwd = os.getcwd()
          path = join(cwd, path)
      return normpath(path)
  \<close>
  The path is rewritten as a text; the file system is not consulted, except for the
  working directory of a relative path. \<open>path_join\<close> is \<^verbatim>\<open>join\<close> with two arguments,
  \<open>norm_step\<close> is one round of the loop of \<^verbatim>\<open>normpath\<close>.
  Its variable \<open>comp\<close> is written \<open>comp'\<close>.
\<close>

definition startswith :: "string \<Rightarrow> string \<Rightarrow> bool" where
  "startswith s prefix \<longleftrightarrow> take (length prefix) s = prefix"

definition endswith :: "string \<Rightarrow> string \<Rightarrow> bool" where
  "endswith s suffix \<longleftrightarrow> length suffix \<le> length s \<and> drop (length s - length suffix) s = suffix"

definition isabs :: "string \<Rightarrow> bool" where
  "isabs s \<longleftrightarrow> startswith s ''/''"

definition path_join :: "string \<Rightarrow> string \<Rightarrow> string" where
  "path_join a b =
     (if startswith b ''/'' then b
      else if a = [] \<or> endswith a ''/'' then a @ b
      else a @ ''/'' @ b)"

fun str_join :: "string \<Rightarrow> string list \<Rightarrow> string" where
  "str_join sep [] = []"
| "str_join sep [x] = x"
| "str_join sep (x # y # ys) = x @ sep @ str_join sep (y # ys)"

definition norm_step :: "nat \<Rightarrow> string list \<Rightarrow> string \<Rightarrow> string list" where
  "norm_step initial_slashes new_comps comp' =
     (if comp' = [] \<or> comp' = ''.'' then new_comps
      else if comp' \<noteq> ''..'' \<or> (initial_slashes = 0 \<and> new_comps = [])
                \<or> (new_comps \<noteq> [] \<and> last new_comps = ''..'')
        then new_comps @ [comp']
      else if new_comps \<noteq> [] then butlast new_comps
      else new_comps)"

definition normpath :: "string \<Rightarrow> string" where
  "normpath p =
     (if p = [] then ''.''
      else
        let initial_slashes = (if startswith p ''/'' then 1 else 0 :: nat);
            initial_slashes =
              (if initial_slashes \<noteq> 0 \<and> startswith p ''//'' \<and> \<not> startswith p ''///''
               then 2 else initial_slashes);
            comps = str_split (CHR ''/'') p;
            new_comps = foldl (norm_step initial_slashes) [] comps;
            comps = new_comps;
            p = str_join ''/'' comps;
            p = (if initial_slashes \<noteq> 0 then replicate initial_slashes (CHR ''/'') @ p else p)
        in if p = [] then ''.'' else p)"

definition abspath :: "('fs \<Rightarrow> string \<Rightarrow> bool) \<Rightarrow> string \<Rightarrow> 'fs world \<Rightarrow> error + string" where
  "abspath isdir p w =
     (if \<not> isabs p
      then (case os_getcwd isdir w of
              Inl e \<Rightarrow> Inl e
            | Inr cwd' \<Rightarrow> Inr (normpath (path_join cwd' p)))
      else Inr (normpath p))"

text \<open>A component that \<^verbatim>\<open>normpath\<close> keeps in an absolute path: not empty, not \<open>.\<close>, not
  \<open>..\<close>, and without a slash.\<close>

definition clean_comp :: "string \<Rightarrow> bool" where
  "clean_comp c \<longleftrightarrow> c \<noteq> [] \<and> c \<noteq> ''.'' \<and> c \<noteq> ''..'' \<and> CHR ''/'' \<notin> set c"

subsection \<open>Repo\<close>

text \<open>
  \<^verbatim>\<open>
  class Repo(object):
      def __init__(self, path):
          self.path = os.path.abspath(path)
          for fname in __cmds__:
              fn = globals()[fname]
              decorated_fn = self._with_temporary_chdir(fn)
              setattr(self, fname, decorated_fn)

      @contextlib.contextmanager
      def chdir(self):
          orig_path = os.getcwd()
          os.chdir(self.path)
          try:
              yield
          finally:
              os.chdir(orig_path)

      def _with_temporary_chdir(self, fn):
          @functools.wraps(fn)
          def wrapper(*args, **kwargs):
              with self.chdir():
                  return fn(*args, **kwargs)
          return wrapper

  __cmds__ = ['add', 'am', 'checkout', 'commit', 'format_patch', 'init', 'log',
              'reset']
  \<close>
  The object's state is its \<open>path\<close>; its eight methods are the wrapped module
  functions. The constructor raises what \<^verbatim>\<open>os.path.abspath\<close> raises, and then makes no
  object.
\<close>

record repo =
  path :: string

definition Repo_init ::
  "('fs \<Rightarrow> string \<Rightarrow> bool) \<Rightarrow> string \<Rightarrow> 'fs world \<Rightarrow> (error + repo) \<times> 'fs world" where
  "Repo_init isdir p w =
     (case abspath isdir p w of
        Inl e \<Rightarrow> (Inl e, w)
      | Inr a \<Rightarrow> (Inr \<lparr>path = a\<rparr>, w))"

text \<open>A call with its arguments, one constructor for each name in \<^verbatim>\<open>__cmds__\<close>, and the
  value a call returns.\<close>

datatype call =
    Add string
  | Am "string list" "string \<rightharpoonup> bool"
  | Checkout string bool bool
  | Commit "string option" bool bool "string option" bool
  | Format_patch string
  | Init string bool
  | Log "string option" "int option" "string option" "int option"
  | Reset string bool bool

datatype retval = RNone | RList "string list" | RStr string

definition cmds :: "string list" where
  "cmds = [''add'', ''am'', ''checkout'', ''commit'', ''format_patch'', ''init'', ''log'', ''reset'']"

fun cmd_name :: "call \<Rightarrow> string" where
  "cmd_name (Add _) = ''add''"
| "cmd_name (Am _ _) = ''am''"
| "cmd_name (Checkout _ _ _) = ''checkout''"
| "cmd_name (Commit _ _ _ _ _) = ''commit''"
| "cmd_name (Format_patch _) = ''format_patch''"
| "cmd_name (Init _ _) = ''init''"
| "cmd_name (Log _ _ _ _) = ''log''"
| "cmd_name (Reset _ _ _) = ''reset''"

definition returning ::
  "('a \<Rightarrow> retval) \<Rightarrow> (error + 'a) \<times> 'fs world \<Rightarrow> (error + retval) \<times> 'fs world" where
  "returning f rw = (case rw of (Inl e, w') \<Rightarrow> (Inl e, w') | (Inr v, w') \<Rightarrow> (Inr (f v), w'))"

text \<open>\<^verbatim>\<open>fn(*args, **kwargs)\<close> for the module function \<open>fn\<close> of that name.\<close>

fun invoke :: "'fs tool \<Rightarrow> call \<Rightarrow> 'fs world \<Rightarrow> (error + retval) \<times> 'fs world" where
  "invoke git (Add filename) w = returning (\<lambda>_. RNone) (add git filename w)"
| "invoke git (Am patch_paths kwargs) w = returning (\<lambda>_. RNone) (am git patch_paths kwargs w)"
| "invoke git (Checkout branch_name create create_and_reset) w =
     returning (\<lambda>_. RNone) (checkout git branch_name create create_and_reset w)"
| "invoke git (Commit msg all amend use_commit_object quiet) w =
     returning (\<lambda>_. RNone) (commit git msg all amend use_commit_object quiet w)"
| "invoke git (Format_patch since) w = returning RList (format_patch git since w)"
| "invoke git (Init directory quiet) w = returning (\<lambda>_. RNone) (init git directory quiet w)"
| "invoke git (Log cmd_arg count pretty skip) w =
     returning RStr (log git cmd_arg count pretty skip w)"
| "invoke git (Reset commit' hard quiet) w =
     returning (\<lambda>_. RNone) (reset git commit' hard quiet w)"

text \<open>
  The wrapper: \<^verbatim>\<open>with self.chdir(): return fn(*args, **kwargs)\<close>. If \<^verbatim>\<open>os.getcwd\<close> or
  the first \<^verbatim>\<open>os.chdir\<close> raises, the body is not run. Otherwise the body runs, and the
  \<^verbatim>\<open>finally\<close> clause runs on both of its outcomes. If the \<^verbatim>\<open>os.chdir\<close> of the
  \<^verbatim>\<open>finally\<close> clause raises, its \<open>OSError\<close> takes the place of the outcome of the
  body; if not, the value is returned or the exception of the body propagates. The
  object is returned with the process state.
\<close>

definition with_temporary_chdir ::
  "('fs \<Rightarrow> string \<Rightarrow> bool) \<Rightarrow> repo \<Rightarrow> ('fs world \<Rightarrow> (error + 'a) \<times> 'fs world) \<Rightarrow> 'fs world
     \<Rightarrow> (error + 'a) \<times> repo \<times> 'fs world" where
  "with_temporary_chdir isdir self fn w =
     (case os_getcwd isdir w of
        Inl e \<Rightarrow> (Inl e, self, w)
      | Inr orig_path \<Rightarrow>
          (case os_chdir isdir (path self) w of
             (Inl e, w1) \<Rightarrow> (Inl e, self, w1)
           | (Inr u, w1) \<Rightarrow>
               (let (r, w2) = fn w1
                in case os_chdir isdir orig_path w2 of
                     (Inl e, w3) \<Rightarrow> (Inl e, self, w3)
                   | (Inr u', w3) \<Rightarrow> (r, self, w3))))"

definition Repo_call ::
  "('fs \<Rightarrow> string \<Rightarrow> bool) \<Rightarrow> 'fs tool \<Rightarrow> repo \<Rightarrow> call \<Rightarrow> 'fs world
     \<Rightarrow> (error + retval) \<times> repo \<times> 'fs world" where
  "Repo_call isdir git self c w = with_temporary_chdir isdir self (invoke git c) w"

subsection \<open>Sequences of calls on one Repo\<close>

text \<open>A caller that makes the calls of a list one after the other through the same
  object, catching each exception: the outcomes, the object and the process state at
  the end.\<close>

fun Repo_calls ::
  "('fs \<Rightarrow> string \<Rightarrow> bool) \<Rightarrow> 'fs tool \<Rightarrow> repo \<Rightarrow> call list \<Rightarrow> 'fs world
     \<Rightarrow> (error + retval) list \<times> repo \<times> 'fs world" where
  "Repo_calls isdir git self [] w = ([], self, w)"
| "Repo_calls isdir git self (c # cs) w =
     (let (r, self', w') = Repo_call isdir git self c w;
          (rs, self'', w'') = Repo_calls isdir git self' cs w'
      in (r # rs, self'', w''))"

subsection \<open>The shapes the specification gives to argument vectors\<close>

text \<open>
  The order the specification gives to an argument vector: program name and subcommand,
  then the flag section, then the positional arguments. The second predicate is the
  order with the last two sections exchanged.
\<close>

definition flags_then_positionals ::
  "string \<Rightarrow> string list \<Rightarrow> string list \<Rightarrow> string list \<Rightarrow> bool" where
  "flags_then_positionals sub flags positionals argv \<longleftrightarrow>
     argv = [''git'', sub] @ flags @ positionals"

definition positionals_then_flags ::
  "string \<Rightarrow> string list \<Rightarrow> string list \<Rightarrow> string list \<Rightarrow> bool" where
  "positionals_then_flags sub positionals flags argv \<longleftrightarrow>
     argv = [''git'', sub] @ positionals @ flags"

text \<open>
  The specification's flag-construction rule. A boolean option gives its flag when it is
  true; a value option that is given yields its flag and its value as two entries, or,
  where the value is embedded, one entry made of the flag prefix and the value.
\<close>

datatype opt =
    Flag bool string
  | Valued "string option" string
  | Combined "string option" string

fun render :: "opt \<Rightarrow> string list" where
  "render (Flag b f) = (if b then [f] else [])"
| "render (Valued v f) = (case v of None \<Rightarrow> [] | Some x \<Rightarrow> [f, x])"
| "render (Combined v f) = (case v of None \<Rightarrow> [] | Some x \<Rightarrow> [f @ x])"

definition option_tokens :: "opt list \<Rightarrow> string list" where
  "option_tokens os = concat (map render os)"

text \<open>An argument tested by truthiness is given when it is neither \<open>None\<close> nor empty.\<close>

definition truthy :: "string option \<Rightarrow> string option" where
  "truthy v = (case v of None \<Rightarrow> None | Some x \<Rightarrow> if x = [] then None else Some x)"

text \<open>The non-empty lines of a text: its pieces between line feeds, without the empty
  ones.\<close>

definition nonempty_lines :: "string \<Rightarrow> string list" where
  "nonempty_lines s = filter (\<lambda>line. line \<noteq> []) (str_split NL s)"

subsection \<open>A concrete environment\<close>

text \<open>An external program that exits with a fixed status and output, and a process state
  to start from.\<close>

definition fixed_tool :: "int \<Rightarrow> string \<Rightarrow> unit tool" where
  "fixed_tool rc out = (\<lambda>f d args. (\<lparr>returncode = rc, stdout = out\<rparr>, f))"

definition w0 :: "unit world" where
  "w0 = \<lparr>cwd = ''/home/user'', fs = (), spawned = []\<rparr>"

text \<open>A file system given by its directories and its symbolic links, each link with its
  target; a path \<open>names_no_symlink\<close> when it is not one of the links, as every canonical
  path does. An external program that exits with status 1 and changes nothing, and one
  that exits with status 0 and removes a directory, as a checkout does with a directory
  that the other branch does not have.\<close>

record files =
  dirs :: "string list"
  symlinks :: "(string \<times> string) list"

definition files_isdir :: "files \<Rightarrow> string \<Rightarrow> bool" where
  "files_isdir f p \<longleftrightarrow> p \<in> set (dirs f)"

definition names_no_symlink :: "files \<Rightarrow> string \<Rightarrow> bool" where
  "names_no_symlink f p \<longleftrightarrow> map_of (symlinks f) p = None"



definition w_files :: "files world" where
  "w_files = \<lparr>cwd = ''/repo/docs'',
         fs = \<lparr>dirs = [''/repo'', ''/repo/docs'', ''/srv/repo'', ''/tmp/link''],
               symlinks = [(''/tmp/link'', ''/srv/repo'')]\<rparr>,
         spawned = []\<rparr>"

section \<open>Auxiliary facts\<close>

subsection \<open>What a spawn returns and records\<close>

lemma spawn_result:
  "fst (spawn git args w) = fst (git (fs w) (cwd w) args)"
  "snd (spawn git args w) = w\<lparr>fs := snd (git (fs w) (cwd w) args), spawned := spawned w @ [(cwd w, args)]\<rparr>"
  by (simp_all add: spawn_def split: prod.splits)

lemma check_call_result:
  "fst (check_call git args w) =
     (if returncode (fst (git (fs w) (cwd w) args)) \<noteq> 0
      then Inl (CalledProcessError (returncode (fst (git (fs w) (cwd w) args))) args)
      else Inr ())"
  "snd (check_call git args w) = snd (spawn git args w)"
  using spawn_result(1) [of git args w]
  by (auto simp add: check_call_def split: prod.splits)

lemma Popen_communicate_result:
  "fst (Popen_communicate git args w) =
     (returncode (fst (git (fs w) (cwd w) args)), stdout (fst (git (fs w) (cwd w) args)), None)"
  "snd (Popen_communicate git args w) = snd (spawn git args w)"
  using spawn_result(1) [of git args w]
  by (auto simp add: Popen_communicate_def split: prod.splits)

text \<open>Each operation that reaches its spawn starts one process, in the working
  directory of the moment, with the argument vector it has built.\<close>

lemma spawned_by_operation:
  "spawned (snd (add git filename w)) = spawned w @ [(cwd w, add_args filename)]"
  "spawned (snd (am git patch_paths kwargs w)) = spawned w @ [(cwd w, am_args patch_paths kwargs)]"
  "checkout_args branch_name create create_and_reset = Inr args \<Longrightarrow>
     spawned (snd (checkout git branch_name create create_and_reset w)) = spawned w @ [(cwd w, args)]"
  "spawned (snd (commit git msg all amend use_commit_object quiet w)) =
     spawned w @ [(cwd w, commit_args msg all amend use_commit_object quiet)]"
  "spawned (snd (format_patch git since w)) = spawned w @ [(cwd w, format_patch_args since)]"
  "spawned (snd (init git directory quiet w)) = spawned w @ [(cwd w, init_args directory quiet)]"
  "spawned (snd (log git cmd_arg count pretty skip w)) =
     spawned w @ [(cwd w, log_args cmd_arg count pretty skip)]"
  "spawned (snd (reset git commit' hard quiet w)) = spawned w @ [(cwd w, reset_args commit' hard quiet)]"
  by (auto simp add: add_def am_def checkout_def commit_def format_patch_def init_def log_def
      reset_def check_call_def Popen_communicate_def spawn_def Let_def
      split: prod.splits sum.splits error.splits)

subsection \<open>The argument vectors in closed form\<close>

lemma flag_sections:
  "am_args patch_paths kwargs =
     [''git'', ''am''] @ patch_paths
       @ (if kwargs_get kwargs ''three_way_merge'' False then [''--3way''] else [])
       @ (if kwargs_get kwargs ''resolved'' False then [''--resolved''] else [])
       @ (if kwargs_get kwargs ''quiet'' False then [''-q''] else [])"
  "commit_args msg all amend use_commit_object quiet =
     [''git'', ''commit'']
       @ (case msg of None \<Rightarrow> [] | Some m \<Rightarrow> [''-m'', m])
       @ (if all then [''-a''] else [])
       @ (if amend then [''--amend''] else [])
       @ (case truthy use_commit_object of None \<Rightarrow> [] | Some c \<Rightarrow> [''-C'', c])
       @ (if quiet then [''-q''] else [])"
  "init_args directory quiet = [''git'', ''init''] @ (if quiet then [''-q''] else []) @ [directory]"
  "log_args cmd_arg count pretty skip =
     [''git'', ''log'']
       @ (case truthy pretty of None \<Rightarrow> [] | Some p \<Rightarrow> [''--pretty='' @ p])
       @ (case count of None \<Rightarrow> [] | Some n \<Rightarrow> [''-'' @ fmt_d n])
       @ (case skip of None \<Rightarrow> [] | Some n \<Rightarrow> [''--skip='' @ fmt_d n])
       @ (case truthy cmd_arg of None \<Rightarrow> [] | Some a \<Rightarrow> [a])"
  "reset_args commit' hard quiet =
     [''git'', ''reset'', commit'] @ (if hard then [''--hard''] else []) @ (if quiet then [''-q''] else [])"
  by (simp_all add: am_args_def commit_args_def init_args_def log_args_def reset_args_def
      truthy_def Let_def split: option.splits)

lemma checkout_args_shape:
  "checkout_args branch_name create create_and_reset =
     (if create \<and> create_and_reset
      then Inl (MutuallyIncompatibleOptions ''create and create_and_reset'')
      else Inr ([''git'', ''checkout''] @ (if create then [''-b''] else [])
                  @ (if create_and_reset then [''-B''] else []) @ [branch_name]))"
  by (simp add: checkout_args_def Let_def)

subsection \<open>Splitting at a separator\<close>

text \<open>The pieces of \<open>str_split\<close> contain no separator and, each followed by a separator,
  give the text back: they are the lines of the text.\<close>

lemma str_split_not_Nil: "str_split sep s \<noteq> []"
  by (induction s) (auto split: list.splits)

lemma str_split_pieces_rejoin:
  "concat (map (\<lambda>piece. piece @ [sep]) (str_split sep s)) = s @ [sep]"
proof (induction s)
  case Nil
  show ?case by simp
next
  case (Cons c cs)
  show ?case
  proof (cases "c = sep")
    case True
    with Cons show ?thesis by simp
  next
    case False
    obtain l ls where "str_split sep cs = l # ls"
      using str_split_not_Nil [of sep cs] by (cases "str_split sep cs") auto
    with Cons False show ?thesis by simp
  qed
qed

lemma str_split_pieces_free_of_sep:
  "piece \<in> set (str_split sep s) \<Longrightarrow> sep \<notin> set piece"
  by (induction s arbitrary: piece) (auto split: if_splits list.splits)

subsection \<open>The capturing operations\<close>

lemma format_patch_result:
  "fst (format_patch git since w) =
     (if returncode (fst (git (fs w) (cwd w) [''git'', ''format-patch'', since])) \<noteq> 0
      then Inl (GitException (returncode (fst (git (fs w) (cwd w) [''git'', ''format-patch'', since])))
                  (stdout (fst (git (fs w) (cwd w) [''git'', ''format-patch'', since]))) None)
      else Inr (map strip (nonempty_lines
                  (stdout (fst (git (fs w) (cwd w) [''git'', ''format-patch'', since]))))))"
  using Popen_communicate_result(1) [of git "[''git'', ''format-patch'', since]" w]
  by (auto simp add: format_patch_def format_patch_args_def nonempty_lines_def Let_def
      split: prod.splits)

lemma log_result:
  "fst (log git cmd_arg count pretty skip w) =
     (if returncode (fst (git (fs w) (cwd w) (log_args cmd_arg count pretty skip))) \<noteq> 0
      then Inl (GitException (returncode (fst (git (fs w) (cwd w) (log_args cmd_arg count pretty skip))))
                  (stdout (fst (git (fs w) (cwd w) (log_args cmd_arg count pretty skip)))) None)
      else Inr (stdout (fst (git (fs w) (cwd w) (log_args cmd_arg count pretty skip)))))"
  "snd (log git cmd_arg count pretty skip w) = snd (spawn git (log_args cmd_arg count pretty skip) w)"
  using Popen_communicate_result [of git "log_args cmd_arg count pretty skip" w]
  by (auto simp add: log_def Let_def split: prod.splits)

lemma log_args_example:
  "log_args None (Some 3) (Some ''oneline'') (Some 2) =
     [''git'', ''log'', ''--pretty=oneline'', ''-3'', ''--skip=2'']"
  by (simp add: log_args_def fmt_d_def digits.simps digit_char_def)

subsection \<open>The wrapper\<close>

text \<open>No operation changes the working directory: the external program runs in a child
  process.\<close>

lemma invoke_cwd: "cwd (snd (invoke git c w)) = cwd w"
  by (cases c)
    (auto simp add: returning_def add_def am_def checkout_def commit_def format_patch_def
      init_def log_def reset_def check_call_def Popen_communicate_def spawn_def Let_def
      split: prod.splits sum.splits error.splits)



lemma Repo_call_self: "fst (snd (Repo_call isdir git self c w)) = self"
  by (auto simp add: Repo_call_def with_temporary_chdir_def os_getcwd_def os_chdir_def Let_def
      split: prod.splits sum.splits if_splits)

lemma Repo_calls_self: "fst (snd (Repo_calls isdir git self cs w)) = self"
proof (induction cs arbitrary: self w)
  case Nil
  show ?case by simp
next
  case (Cons c cs)
  obtain r self' w' where step: "Repo_call isdir git self c w = (r, self', w')"
    by (cases "Repo_call isdir git self c w") auto
  then have "self' = self"
    using Repo_call_self [of isdir git self c w] by simp
  with step Cons.IH [of self w'] show ?case
    by (cases "Repo_calls isdir git self cs w'") auto
qed

subsection \<open>Normal forms of paths\<close>

text \<open>The normal form of an absolute path is one or two slashes followed by clean
  components joined with slashes, and \<^verbatim>\<open>normpath\<close> leaves such a path as it is.\<close>

lemma str_split_no_sep: "sep \<notin> set s \<Longrightarrow> str_split sep s = [s]"
  by (induction s) auto

lemma str_split_piece_then_sep:
  "sep \<notin> set x \<Longrightarrow> str_split sep (x @ sep # rest) = x # str_split sep rest"
  by (induction x) auto

lemma str_split_str_join:
  "comps \<noteq> [] \<Longrightarrow> \<forall>c \<in> set comps. sep \<notin> set c \<Longrightarrow>
     str_split sep (str_join [sep] comps) = comps"
proof (induction "[sep]" comps rule: str_join.induct)
  case 1
  then show ?case by simp
next
  case (2 x)
  then show ?case by (simp add: str_split_no_sep)
next
  case (3 x y ys)
  then show ?case by (simp add: str_split_piece_then_sep)
qed

lemma norm_step_clean:
  "k \<noteq> 0 \<Longrightarrow> list_all clean_comp acc \<Longrightarrow> CHR ''/'' \<notin> set c \<Longrightarrow>
     list_all clean_comp (norm_step k acc c)"
proof -
  assume k: "k \<noteq> 0" and acc: "list_all clean_comp acc" and c: "CHR ''/'' \<notin> set c"
  have "list_all clean_comp (butlast acc)"
    using acc by (auto simp add: list_all_iff dest: in_set_butlastD)
  moreover have "acc \<noteq> [] \<Longrightarrow> last acc \<noteq> ''..''"
    using acc by (auto simp add: list_all_iff clean_comp_def dest: last_in_set)
  ultimately show ?thesis
    using k acc c by (auto simp add: norm_step_def clean_comp_def)
qed

lemma foldl_norm_step_clean:
  "k \<noteq> 0 \<Longrightarrow> list_all clean_comp acc \<Longrightarrow> \<forall>c \<in> set cs. CHR ''/'' \<notin> set c \<Longrightarrow>
     list_all clean_comp (foldl (norm_step k) acc cs)"
  by (induction cs arbitrary: acc) (auto simp add: norm_step_clean)

lemma foldl_norm_step_keeps_clean:
  "k \<noteq> 0 \<Longrightarrow> list_all clean_comp acc \<Longrightarrow> list_all clean_comp cs \<Longrightarrow>
     foldl (norm_step k) acc cs = acc @ cs"
proof (induction cs arbitrary: acc)
  case Nil
  show ?case by simp
next
  case (Cons c cs)
  have "acc \<noteq> [] \<Longrightarrow> last acc \<noteq> ''..''"
    using Cons.prems(2) by (auto simp add: list_all_iff clean_comp_def dest: last_in_set)
  then have "norm_step k acc c = acc @ [c]"
    using Cons.prems by (auto simp add: norm_step_def clean_comp_def)
  moreover have "list_all clean_comp (acc @ [c])"
    using Cons.prems by simp
  ultimately show ?case
    using Cons.IH [of "acc @ [c]"] Cons.prems by simp
qed

lemma foldl_norm_step_skips_empty:
  "foldl (norm_step k) acc (replicate n [] @ cs) = foldl (norm_step k) acc cs"
  "foldl (norm_step k) acc (replicate n []) = acc"
  by (induction n) (auto simp add: norm_step_def)

lemma str_join_clean_no_slash_first:
  "list_all clean_comp nc \<Longrightarrow> \<not> startswith (str_join ''/'' nc) ''/''"
  by (induction "''/''" nc rule: str_join.induct)
    (auto simp add: startswith_def clean_comp_def neq_Nil_conv)

lemma startswith_simps:
  "startswith s [] = True"
  "startswith [] (c # prefix) = False"
  "startswith (a # s) (c # prefix) = (a = c \<and> startswith s prefix)"
  by (auto simp add: startswith_def)

lemma str_split_leading_seps:
  "str_split sep (replicate n sep @ s) = replicate n [] @ str_split sep s"
  by (induction n) auto

lemma normpath_absolute_shape:
  assumes "isabs q"
  shows "\<exists>k nc. (k = 1 \<or> k = 2) \<and> list_all clean_comp nc
           \<and> normpath q = replicate k (CHR ''/'') @ str_join ''/'' nc"
proof -
  from assms obtain q' where q: "q = CHR ''/'' # q'"
    by (cases q) (auto simp add: isabs_def startswith_simps)
  define k :: nat where "k = (if startswith q ''//'' \<and> \<not> startswith q ''///'' then 2 else 1)"
  define nc where "nc = foldl (norm_step k) [] (str_split (CHR ''/'') q)"
  have k: "k = 1 \<or> k = 2"
    by (simp add: k_def)
  then have "k \<noteq> 0" by auto
  then have clean: "list_all clean_comp nc"
    unfolding nc_def
    by (rule foldl_norm_step_clean) (auto dest: str_split_pieces_free_of_sep)
  have "replicate k (CHR ''/'') @ str_join ''/'' nc \<noteq> []"
    using k by auto
  then have "normpath q = replicate k (CHR ''/'') @ str_join ''/'' nc"
    using k by (auto simp add: normpath_def Let_def q startswith_simps k_def nc_def)
  with k clean show ?thesis by blast
qed

lemma normpath_fixes_shape:
  assumes k: "k = 1 \<or> k = 2" and clean: "list_all clean_comp nc"
  shows "normpath (replicate k (CHR ''/'') @ str_join ''/'' nc)
           = replicate k (CHR ''/'') @ str_join ''/'' nc"
proof -
  let ?j = "str_join ''/'' nc"
  let ?r = "replicate k (CHR ''/'') @ ?j"
  have nj: "\<not> startswith ?j ''/''"
    using clean by (rule str_join_clean_no_slash_first)
  have k0: "k \<noteq> 0" using k by auto
  have split: "str_split (CHR ''/'') ?r = replicate k [] @ str_split (CHR ''/'') ?j"
    by (rule str_split_leading_seps)
  have fold: "foldl (norm_step k) [] (str_split (CHR ''/'') ?r) = nc"
  proof (cases "nc = []")
    case True
    have "str_split (CHR ''/'') (replicate k (CHR ''/'') @ []) = replicate k [] @ [[]]"
      unfolding str_split_leading_seps by simp
    then have "foldl (norm_step k) [] (str_split (CHR ''/'') (replicate k (CHR ''/''))) = []"
      by (simp add: foldl_norm_step_skips_empty norm_step_def)
    with True show ?thesis by simp
  next
    case False
    have "\<forall>c \<in> set nc. CHR ''/'' \<notin> set c"
      using clean by (auto simp add: list_all_iff clean_comp_def)
    with False have "str_split (CHR ''/'') ?j = nc"
      using str_split_str_join [of nc "CHR ''/''"] by simp
    then show ?thesis
      using foldl_norm_step_keeps_clean [OF k0 _ clean, of "[]"]
      by (simp add: split foldl_norm_step_skips_empty)
  qed
  have init: "(let i = (if startswith ?r ''/'' then 1 else 0 :: nat)
               in if i \<noteq> 0 \<and> startswith ?r ''//'' \<and> \<not> startswith ?r ''///'' then 2 else i) = k"
    using k nj by (auto simp add: startswith_simps Let_def numeral_2_eq_2)
  have ne: "?r \<noteq> []" using k0 by auto
  show ?thesis
    using init fold ne k0 unfolding normpath_def Let_def
    by (simp del: replicate.simps)
qed

lemma normpath_absolute:
  assumes "isabs q"
  shows "isabs (normpath q)" and "normpath (normpath q) = normpath q"
proof -
  obtain k nc where k: "k = 1 \<or> k = 2" and clean: "list_all clean_comp nc"
    and n: "normpath q = replicate k (CHR ''/'') @ str_join ''/'' nc"
    using normpath_absolute_shape [OF assms] by blast
  show "isabs (normpath q)"
    using k by (auto simp add: n isabs_def startswith_simps numeral_2_eq_2)
  show "normpath (normpath q) = normpath q"
    unfolding n using k clean by (rule normpath_fixes_shape)
qed

lemma path_join_absolute: "isabs a \<Longrightarrow> \<not> isabs b \<Longrightarrow> isabs (path_join a b)"
  by (cases a) (auto simp add: isabs_def path_join_def startswith_simps)

lemma Repo_init_result:
  "snd (Repo_init isdir p w) = w"
  "isabs p \<Longrightarrow> fst (Repo_init isdir p w) = Inr \<lparr>path = normpath p\<rparr>"
  "\<not> isabs p \<Longrightarrow> isdir (fs w) (cwd w) \<Longrightarrow>
     fst (Repo_init isdir p w) = Inr \<lparr>path = normpath (path_join (cwd w) p)\<rparr>"
  "\<not> isabs p \<Longrightarrow> \<not> isdir (fs w) (cwd w) \<Longrightarrow>
     fst (Repo_init isdir p w) = Inl (OSError (cwd w))"
  by (simp_all add: Repo_init_def abspath_def os_getcwd_def split: sum.splits)

lemma Repo_init_absolute:
  assumes "fst (Repo_init isdir p w) = Inr r" and "isabs (cwd w)"
  shows "isabs (path r)" and "normpath (path r) = path r"
proof -
  define q where "q = (if isabs p then p else path_join (cwd w) p)"
  have q: "isabs q"
    using assms(2) by (simp add: q_def path_join_absolute)
  have "path r = normpath q"
    using assms(1)
    by (auto simp add: q_def Repo_init_def abspath_def os_getcwd_def split: sum.splits if_splits)
  with normpath_absolute [OF q] show "isabs (path r)" and "normpath (path r) = path r"
    by simp_all
qed

section \<open>Properties\<close>




text \<open>
  C2. For every branch name, \<open>checkout\<close> with both \<open>create\<close> and \<open>create_and_reset\<close>
  true raises \<open>MutuallyIncompatibleOptions\<close>, and the call spawns no process: the
  whole process state, with its list of spawned processes, is the one before the call.
\<close>

theorem checkout_conflict_raises_before_spawn:
  "checkout git branch_name True True w =
     (Inl (MutuallyIncompatibleOptions ''create and create_and_reset''), w)
   \<and> spawned (snd (checkout git branch_name True True w)) = spawned w"
  by (simp add: checkout_def checkout_args_def)

text \<open>
  C3. For every call of \<open>am\<close>: if the external process exits with a non-zero status,
  whatever its value, the call raises \<open>PatchDidNotApplyCleanly\<close>, which carries neither
  status nor output; if it exits with zero the call returns normally; and the call never
  raises \<open>CalledProcessError\<close> or \<open>GitException\<close>.
\<close>

theorem am_exit_status:
  "(returncode (fst (git (fs w) (cwd w) (am_args patch_paths kwargs))) \<noteq> 0 \<longrightarrow>
      fst (am git patch_paths kwargs w) = Inl PatchDidNotApplyCleanly)
   \<and> (returncode (fst (git (fs w) (cwd w) (am_args patch_paths kwargs))) = 0 \<longrightarrow>
      fst (am git patch_paths kwargs w) = Inr ())
   \<and> fst (am git patch_paths kwargs w) \<noteq> Inl (CalledProcessError rc cmd)
   \<and> fst (am git patch_paths kwargs w) \<noteq> Inl (GitException rc out err)"
  using check_call_result(1) [of git "am_args patch_paths kwargs" w]
  by (auto simp add: am_def split: prod.splits sum.splits error.splits if_splits)

text \<open>The statuses 128 and 0.\<close>

theorem am_exit_status_witness:
  "fst (am (fixed_tool 128 []) [''0001-a.patch''] Map.empty w0) = Inl PatchDidNotApplyCleanly
   \<and> fst (am (fixed_tool 0 []) [''0001-a.patch''] Map.empty w0) = Inr ()"
  using am_exit_status [of "fixed_tool 128 []" w0 "[''0001-a.patch'']" Map.empty]
    am_exit_status [of "fixed_tool 0 []" w0 "[''0001-a.patch'']" Map.empty]
  by (simp add: fixed_tool_def)

text \<open>
  C4. Every argument vector starts with the program name and the
  subcommand name. For \<open>add\<close>, \<open>checkout\<close>, \<open>commit\<close>, \<open>format_patch\<close>, \<open>init\<close> and
  \<open>log\<close> the flag tokens follow and the positional arguments come last. For \<open>am\<close> and
  \<open>reset\<close> the positional arguments (the patch paths, the commit) come right after the
  subcommand and the flag tokens follow them. \<open>checkout\<close> builds no vector when both
  creation modes are requested.
\<close>

theorem argv_section_order:
  "flags_then_positionals ''add'' [] [filename] (add_args filename)
   \<and> positionals_then_flags ''am'' patch_paths
        ((if kwargs_get kwargs ''three_way_merge'' False then [''--3way''] else [])
           @ (if kwargs_get kwargs ''resolved'' False then [''--resolved''] else [])
           @ (if kwargs_get kwargs ''quiet'' False then [''-q''] else []))
        (am_args patch_paths kwargs)
   \<and> (case checkout_args branch_name create create_and_reset of
         Inl e \<Rightarrow> create \<and> create_and_reset
       | Inr argv \<Rightarrow>
           flags_then_positionals ''checkout''
             ((if create then [''-b''] else []) @ (if create_and_reset then [''-B''] else []))
             [branch_name] argv)
   \<and> flags_then_positionals ''commit''
        ((case msg of None \<Rightarrow> [] | Some m \<Rightarrow> [''-m'', m])
           @ (if all then [''-a''] else [])
           @ (if amend then [''--amend''] else [])
           @ (case truthy use_commit_object of None \<Rightarrow> [] | Some c \<Rightarrow> [''-C'', c])
           @ (if quiet then [''-q''] else []))
        [] (commit_args msg all amend use_commit_object quiet)
   \<and> flags_then_positionals ''format-patch'' [] [since] (format_patch_args since)
   \<and> flags_then_positionals ''init'' (if quiet then [''-q''] else []) [directory]
        (init_args directory quiet)
   \<and> flags_then_positionals ''log''
        ((case truthy pretty of None \<Rightarrow> [] | Some p \<Rightarrow> [''--pretty='' @ p])
           @ (case count of None \<Rightarrow> [] | Some n \<Rightarrow> [''-'' @ fmt_d n])
           @ (case skip of None \<Rightarrow> [] | Some n \<Rightarrow> [''--skip='' @ fmt_d n]))
        (case truthy cmd_arg of None \<Rightarrow> [] | Some a \<Rightarrow> [a])
        (log_args cmd_arg count pretty skip)
   \<and> positionals_then_flags ''reset'' [commit']
        ((if hard then [''--hard''] else []) @ (if quiet then [''-q''] else []))
        (reset_args commit' hard quiet)"
  unfolding flags_then_positionals_def positionals_then_flags_def
  by (simp add: flag_sections checkout_args_shape add_args_def format_patch_args_def)

text \<open>Flags before positional arguments is not the order of every operation: in
  \<open>reset\<close> with \<open>hard\<close> set, the flag \<open>--hard\<close> comes after the commit and is the last
  token.\<close>

theorem reset_flag_after_positional:
  "reset_args ''HEAD'' True False = [''git'', ''reset'', ''HEAD'', ''--hard'']
   \<and> last (reset_args ''HEAD'' True False) = ''--hard''
   \<and> \<not> flags_then_positionals ''reset'' [''--hard''] [''HEAD''] (reset_args ''HEAD'' True False)"
  by (simp add: reset_args_def flags_then_positionals_def)

text \<open>
  C5. In all eight operations the option tokens follow one rule: a boolean
  option gives its flag token exactly when it is true, and nothing when it is false or
  absent; the value options \<open>msg\<close> (when not \<open>None\<close>) and \<open>use_commit_object\<close> (when
  neither \<open>None\<close> nor empty) of \<open>commit\<close> give the flag token and the value as two
  entries; the \<open>pretty\<close> format (when neither \<open>None\<close> nor empty), the \<open>count\<close> and the
  \<open>skip\<close> offset (when not \<open>None\<close>) of \<open>log\<close> each give one combined token.
\<close>

theorem option_token_rule:
  "add_args filename = [''git'', ''add''] @ option_tokens [] @ [filename]
   \<and> am_args patch_paths kwargs =
       [''git'', ''am''] @ patch_paths
         @ option_tokens [Flag (kwargs_get kwargs ''three_way_merge'' False) ''--3way'',
                          Flag (kwargs_get kwargs ''resolved'' False) ''--resolved'',
                          Flag (kwargs_get kwargs ''quiet'' False) ''-q'']
   \<and> checkout_args branch_name create create_and_reset =
       (if create \<and> create_and_reset
        then Inl (MutuallyIncompatibleOptions ''create and create_and_reset'')
        else Inr ([''git'', ''checkout'']
                    @ option_tokens [Flag create ''-b'', Flag create_and_reset ''-B'']
                    @ [branch_name]))
   \<and> commit_args msg all amend use_commit_object quiet =
       [''git'', ''commit'']
         @ option_tokens [Valued msg ''-m'', Flag all ''-a'', Flag amend ''--amend'',
                          Valued (truthy use_commit_object) ''-C'', Flag quiet ''-q'']
   \<and> format_patch_args since = [''git'', ''format-patch''] @ option_tokens [] @ [since]
   \<and> init_args directory quiet =
       [''git'', ''init''] @ option_tokens [Flag quiet ''-q''] @ [directory]
   \<and> log_args cmd_arg count pretty skip =
       [''git'', ''log'']
         @ option_tokens [Combined (truthy pretty) ''--pretty='',
                          Combined (map_option fmt_d count) ''-'',
                          Combined (map_option fmt_d skip) ''--skip='']
         @ (case truthy cmd_arg of None \<Rightarrow> [] | Some a \<Rightarrow> [a])
   \<and> reset_args commit' hard quiet =
       [''git'', ''reset'', commit']
         @ option_tokens [Flag hard ''--hard'', Flag quiet ''-q'']"
  by (simp add: flag_sections checkout_args_shape add_args_def format_patch_args_def
      option_tokens_def split: option.splits)

text \<open>\<open>count\<close> and \<open>skip\<close> are not the only combined tokens: the value of \<open>pretty\<close> is
  not an entry of its own either.\<close>

theorem log_pretty_is_one_token:
  "log_args None None (Some ''oneline'') None = [''git'', ''log'', ''--pretty=oneline'']
   \<and> ''oneline'' \<notin> set (log_args None None (Some ''oneline'') None)"
  by (simp add: log_args_def)

text \<open>
  C6. On a zero exit \<open>format_patch\<close> returns, in order, the non-empty lines of the
  captured output, each with its leading and trailing whitespace stripped; on a
  non-zero exit it raises \<open>GitException\<close> with the status and the output. When no
  non-empty line carries leading or trailing whitespace, the result is exactly the
  list of the non-empty lines, and it has no empty entry. On the output of the two lines
  \<open>0001-a.patch\<close> and \<open>0002-b.patch\<close> it returns these two names, and on empty output
  the empty list.
\<close>

theorem format_patch_stripped_lines:
  "fst (format_patch git since w) =
     (if returncode (fst (git (fs w) (cwd w) [''git'', ''format-patch'', since])) \<noteq> 0
      then Inl (GitException (returncode (fst (git (fs w) (cwd w) [''git'', ''format-patch'', since])))
                  (stdout (fst (git (fs w) (cwd w) [''git'', ''format-patch'', since]))) None)
      else Inr (map strip (nonempty_lines
                  (stdout (fst (git (fs w) (cwd w) [''git'', ''format-patch'', since]))))))
   \<and> (returncode (fst (git (fs w) (cwd w) [''git'', ''format-patch'', since])) = 0
        \<and> list_all (\<lambda>line. strip line = line)
              (nonempty_lines (stdout (fst (git (fs w) (cwd w) [''git'', ''format-patch'', since]))))
      \<longrightarrow> fst (format_patch git since w) =
            Inr (nonempty_lines (stdout (fst (git (fs w) (cwd w) [''git'', ''format-patch'', since]))))
          \<and> [] \<notin> set (nonempty_lines
                  (stdout (fst (git (fs w) (cwd w) [''git'', ''format-patch'', since])))))
   \<and> fst (format_patch (fixed_tool 0 (''0001-a.patch'' @ [NL] @ ''0002-b.patch'' @ [NL])) since' w')
       = Inr [''0001-a.patch'', ''0002-b.patch'']
   \<and> fst (format_patch (fixed_tool 0 []) since' w') = Inr []"
proof -
  have "strip ''0001-a.patch'' = ''0001-a.patch''" "strip ''0002-b.patch'' = ''0002-b.patch''"
    by (simp_all add: strip_def isspace_def)
  then have two: "map strip (nonempty_lines (''0001-a.patch'' @ [NL] @ ''0002-b.patch'' @ [NL]))
      = [''0001-a.patch'', ''0002-b.patch'']"
    by (simp add: nonempty_lines_def NL_def)
  have none: "map strip (nonempty_lines []) = []"
    by (simp add: nonempty_lines_def)
  have kept: "[] \<notin> set (nonempty_lines out)" for out
    by (simp add: nonempty_lines_def)
  have same: "list_all (\<lambda>line. strip line = line) ls \<Longrightarrow> map strip ls = ls" for ls
    by (induction ls) auto
  show ?thesis
    using two none kept same
    by (simp add: format_patch_result fixed_tool_def)
qed

text \<open>An output with an empty line between the two names: both conditions hold, and the
  empty line gives no entry.\<close>

theorem format_patch_stripped_lines_witness:
  "fst (format_patch (fixed_tool 0 (''0001-a.patch'' @ [NL] @ [NL] @ ''0002-b.patch'' @ [NL])) ''HEAD~2'' w0)
     = Inr [''0001-a.patch'', ''0002-b.patch'']"
  using format_patch_stripped_lines
    [where git = "fixed_tool 0 (''0001-a.patch'' @ [NL] @ [NL] @ ''0002-b.patch'' @ [NL])"
       and since = "''HEAD~2''" and w = w0 and since' = "''HEAD~2''" and w' = w0]
  by (simp add: fixed_tool_def nonempty_lines_def NL_def strip_def isspace_def)

text \<open>Without that condition the result need not be the list of the non-empty lines, and
  it can hold an empty entry: on an output whose only line is one space, the line is
  kept and stripping makes it the empty string.\<close>

theorem format_patch_whitespace_line:
  "fst (format_patch (fixed_tool 0 ('' '' @ [NL])) ''HEAD'' w0) = Inr ['''']
   \<and> nonempty_lines ('' '' @ [NL]) = ['' '']
   \<and> fst (format_patch (fixed_tool 0 ('' '' @ [NL])) ''HEAD'' w0)
       \<noteq> Inr (nonempty_lines ('' '' @ [NL]))"
proof -
  have l: "nonempty_lines ('' '' @ [NL]) = ['' '']"
    by (simp add: nonempty_lines_def NL_def)
  have "strip '' '' = []"
    by (simp add: strip_def isspace_def)
  with l show ?thesis
    by (simp add: format_patch_result fixed_tool_def)
qed

text \<open>
  C7. \<open>log(count=3, pretty="oneline", skip=2)\<close> builds the argument vector
  \<open>git log --pretty=oneline -3 --skip=2\<close>, whose last three tokens are in that order,
  spawns the process with it, and on a zero exit returns the captured output as it is.
\<close>

theorem log_count_pretty_skip:
  "log_args None (Some 3) (Some ''oneline'') (Some 2) =
     [''git'', ''log'', ''--pretty=oneline'', ''-3'', ''--skip=2'']
   \<and> spawned (snd (log git None (Some 3) (Some ''oneline'') (Some 2) w)) =
       spawned w @ [(cwd w, [''git'', ''log'', ''--pretty=oneline'', ''-3'', ''--skip=2''])]
   \<and> (returncode (fst (git (fs w) (cwd w)
          [''git'', ''log'', ''--pretty=oneline'', ''-3'', ''--skip=2''])) = 0 \<longrightarrow>
       fst (log git None (Some 3) (Some ''oneline'') (Some 2) w) =
         Inr (stdout (fst (git (fs w) (cwd w)
                [''git'', ''log'', ''--pretty=oneline'', ''-3'', ''--skip=2'']))))"
  by (simp add: log_result spawn_result log_args_example)

text \<open>An output with surrounding whitespace and line feeds is returned unchanged.\<close>

theorem log_count_pretty_skip_witness:
  "fst (log (fixed_tool 0 (''c3 third'' @ [NL] @ '' c4 fourth  '' @ [NL]))
          None (Some 3) (Some ''oneline'') (Some 2) w0)
     = Inr (''c3 third'' @ [NL] @ '' c4 fourth  '' @ [NL])"
  using log_count_pretty_skip [of "fixed_tool 0 (''c3 third'' @ [NL] @ '' c4 fourth  '' @ [NL])" w0]
  by (simp add: fixed_tool_def)

text \<open>
  C8. When \<open>commit\<close> is called with \<open>msg\<close> absent (\<open>None\<close>), no message flag is passed:
  the vector is the program name, the subcommand and the tokens of the other options, and
  \<open>-m\<close> occurs in it only if the caller gave it as the value of \<open>use_commit_object\<close>.
  When \<open>msg\<close> is present, the flag \<open>-m\<close> and the message are added, as two entries
  after the subcommand.
\<close>

theorem commit_message_flag:
  "commit_args (Some m) all amend use_commit_object quiet =
     [''git'', ''commit'', ''-m'', m] @ drop 2 (commit_args None all amend use_commit_object quiet)
   \<and> take 2 (commit_args None all amend use_commit_object quiet) = [''git'', ''commit'']
   \<and> (''-m'' \<in> set (commit_args None all amend use_commit_object quiet))
       = (use_commit_object = Some ''-m'')"
  by (auto simp add: flag_sections truthy_def split: option.splits if_splits)

text \<open>
  C9. Constructing a \<open>Repo\<close> computes \<^verbatim>\<open>os.path.abspath\<close> of the argument once and stores
  it: for an absolute argument its normal form, for a relative one the normal form of
  the working directory joined with it; if the working directory of a relative
  argument cannot be read, construction raises \<open>OSError\<close>. With an absolute working
  directory the stored path is absolute and normalised: \<^verbatim>\<open>normpath\<close> leaves it as it
  is. Construction leaves the process state as it was: no process is spawned and the
  working directory is not changed. No call through a \<open>Repo\<close>, and no sequence of
  calls, changes the stored path.
\<close>

theorem Repo_path_stored_once:
  "snd (Repo_init isdir p w) = w
   \<and> (isabs p \<longrightarrow> fst (Repo_init isdir p w) = Inr \<lparr>path = normpath p\<rparr>)
   \<and> (\<not> isabs p \<and> isdir (fs w) (cwd w) \<longrightarrow>
        fst (Repo_init isdir p w) = Inr \<lparr>path = normpath (path_join (cwd w) p)\<rparr>)
   \<and> (\<not> isabs p \<and> \<not> isdir (fs w) (cwd w) \<longrightarrow>
        fst (Repo_init isdir p w) = Inl (OSError (cwd w)))
   \<and> (fst (Repo_init isdir p w) = Inr r \<and> isabs (cwd w) \<longrightarrow>
        isabs (path r) \<and> normpath (path r) = path r)
   \<and> fst (snd (Repo_call isdir git self c w')) = self
   \<and> fst (snd (Repo_calls isdir git self cs w')) = self"
  using Repo_init_result [where isdir = isdir and p = p and w = w]
    Repo_init_absolute [where isdir = isdir and p = p and w = w and r = r]
  by (simp add: Repo_call_self Repo_calls_self)

text \<open>A relative and an absolute argument, from the working directory \<open>/repo/docs\<close>.\<close>

theorem Repo_path_stored_once_witness:
  "fst (Repo_init files_isdir ''../../srv/./repo/'' w_files) = Inr \<lparr>path = ''/srv/repo''\<rparr>
   \<and> fst (Repo_init files_isdir ''/srv//repo/../repo'' w_files) = Inr \<lparr>path = ''/srv/repo''\<rparr>
   \<and> isabs ''/srv/repo'' \<and> normpath ''/srv/repo'' = ''/srv/repo''"
proof -
  have rel: "normpath (path_join ''/repo/docs'' ''../../srv/./repo/'') = ''/srv/repo''"
    by (simp add: normpath_def path_join_def startswith_def endswith_def norm_step_def Let_def)
  have ab: "normpath ''/srv//repo/../repo'' = ''/srv/repo''"
    by (simp add: normpath_def startswith_def norm_step_def Let_def)
  have r1: "fst (Repo_init files_isdir ''../../srv/./repo/'' w_files) = Inr \<lparr>path = ''/srv/repo''\<rparr>"
    using Repo_path_stored_once
      [where isdir = files_isdir and p = "''../../srv/./repo/''" and w = w_files]
    by (simp add: rel isabs_def startswith_def files_isdir_def w_files_def)
  have r2: "fst (Repo_init files_isdir ''/srv//repo/../repo'' w_files) = Inr \<lparr>path = ''/srv/repo''\<rparr>"
    using Repo_path_stored_once
      [where isdir = files_isdir and p = "''/srv//repo/../repo''" and w = w_files]
    by (simp add: ab isabs_def startswith_def)
  have "isabs ''/srv/repo'' \<and> normpath ''/srv/repo'' = ''/srv/repo''"
    using r1 Repo_path_stored_once
      [where isdir = files_isdir and p = "''../../srv/./repo/''" and w = w_files
         and r = "\<lparr>path = ''/srv/repo''\<rparr>"]
    by (simp add: isabs_def startswith_def w_files_def)
  with r1 r2 show ?thesis by simp
qed

text \<open>The stored path need not be canonical: the normal form is computed from the text of
  the path, and symbolic links are not resolved. Where \<open>/tmp/link\<close> is a symbolic link
  to \<open>/srv/repo\<close>, a \<open>Repo\<close> made from \<open>/tmp/link\<close> stores \<open>/tmp/link\<close>.\<close>

theorem Repo_path_names_symlink:
  "fst (Repo_init files_isdir ''/tmp/link'' w_files) = Inr \<lparr>path = ''/tmp/link''\<rparr>
   \<and> map_of (symlinks (fs w_files)) ''/tmp/link'' = Some ''/srv/repo''
   \<and> \<not> names_no_symlink (fs w_files) ''/tmp/link''"
  by (simp add: Repo_init_def abspath_def isabs_def normpath_def startswith_def norm_step_def
      names_no_symlink_def w_files_def Let_def)

text \<open>
  C10. In \<open>log\<close>, \<open>count\<close> and \<open>skip\<close> are tested against \<open>None\<close>: \<open>count=0\<close> gives the
  token \<open>-0\<close> (after the \<open>pretty\<close> token, before the others) and \<open>skip=0\<close> gives
  \<open>--skip=0\<close>. \<open>pretty\<close> and \<open>cmd_arg\<close> are tested by truthiness: with the empty
  string the vector is the one built with \<open>None\<close>.
\<close>

theorem log_presence_tests:
  "log_args cmd_arg (Some 0) pretty skip =
     log_args None None pretty None @ [''-0''] @ drop 2 (log_args cmd_arg None None skip)
   \<and> log_args cmd_arg count pretty (Some 0) =
     log_args None count pretty None @ [''--skip=0''] @ drop 2 (log_args cmd_arg None None None)
   \<and> log_args cmd_arg count (Some []) skip = log_args cmd_arg count None skip
   \<and> log_args (Some []) count pretty skip = log_args None count pretty skip
   \<and> log_args None (Some 0) None (Some 0) = [''git'', ''log'', ''-0'', ''--skip=0'']
   \<and> log_args (Some []) None (Some []) None = [''git'', ''log'']"
proof -
  have z: "fmt_d 0 = ''0''"
    by (simp add: fmt_d_def digits.simps digit_char_def)
  show ?thesis
    by (simp add: flag_sections truthy_def z split: option.splits)
qed

end
